theory Spec2Isabelle
  imports Main
begin

section \<open>Values of the host language\<close>

text \<open>
  The program is a Python module (\<^verbatim>\<open>main.py\<close>). It drives an external tool through
  the standard library; the library calls whose outcome depends on the outside world
  (\<^verbatim>\<open>json.loads\<close>, \<^verbatim>\<open>os.makedirs\<close>, \<^verbatim>\<open>subprocess.run\<close>,
  \<^verbatim>\<open>subprocess.Popen\<close>) are fields of an environment record, so every theorem below
  holds for all of their possible behaviours.
\<close>

text \<open>Exceptions: the class (the \<^verbatim>\<open>except\<close> clauses test it) and the text of \<^verbatim>\<open>str(e)\<close>.\<close>

datatype exn_class =
  JSONDecodeError | TypeError | KeyError | ValueError | RecursionError
  | TimeoutExpired | OSError | Exception

datatype exn = Exn exn_class string

fun cls :: "exn \<Rightarrow> exn_class" where
  "cls (Exn c m) = c"

fun str :: "exn \<Rightarrow> string" where
  "str (Exn c m) = m"

text \<open>
  What \<^verbatim>\<open>json.loads\<close> returns: \<^verbatim>\<open>None\<close>, a bool, an int, a float (kept as the
  text of its literal, the program never computes with it), a str, a list or a dict
  (an association list, keys in document order).
\<close>

datatype json =
  JNone
  | JBool bool
  | JInt int
  | JFloat string
  | JStr string
  | JList "json list"
  | JDict "(string \<times> json) list"

fun type_name :: "json \<Rightarrow> string" where
  "type_name JNone = ''NoneType''"
| "type_name (JBool b) = ''bool''"
| "type_name (JInt i) = ''int''"
| "type_name (JFloat f) = ''float''"
| "type_name (JStr s) = ''str''"
| "type_name (JList xs) = ''list''"
| "type_name (JDict kvs) = ''dict''"

definition quoted :: "string \<Rightarrow> string" where
  "quoted s = [CHR 0x27] @ s @ [CHR 0x27]"

text \<open>\<^verbatim>\<open>needle in haystack\<close> on two strings: the needle occurs as a contiguous part.\<close>

fun starts_with :: "string \<Rightarrow> string \<Rightarrow> bool" where
  "starts_with [] s = True"
| "starts_with (p # ps) [] = False"
| "starts_with (p # ps) (c # cs) = (p = c \<and> starts_with ps cs)"

fun str_contains :: "string \<Rightarrow> string \<Rightarrow> bool" where
  "str_contains needle [] = (needle = [])"
| "str_contains needle (c # cs) = (starts_with needle (c # cs) \<or> str_contains needle cs)"

text \<open>
  The operator \<^verbatim>\<open>key in v\<close> for a string key: key membership on a dict, element
  membership on a list, substring test on a str, and a \<^verbatim>\<open>TypeError\<close> on every value
  that is no container.
\<close>

fun py_in :: "string \<Rightarrow> json \<Rightarrow> exn + bool" where
  "py_in key (JDict kvs) = Inr (key \<in> set (map fst kvs))"
| "py_in key (JList xs) = Inr (JStr key \<in> set xs)"
| "py_in key (JStr s) = Inr (str_contains key s)"
| "py_in key v =
     Inl (Exn TypeError (''argument of type '' @ quoted (type_name v) @ '' is not iterable''))"

text \<open>The subscription \<^verbatim>\<open>v[key]\<close> for a string key.\<close>

fun py_getitem :: "json \<Rightarrow> string \<Rightarrow> exn + json" where
  "py_getitem (JDict kvs) key =
     (case map_of kvs key of
        None \<Rightarrow> Inl (Exn KeyError (quoted key))
      | Some x \<Rightarrow> Inr x)"
| "py_getitem (JStr s) key = Inl (Exn TypeError ''string indices must be integers'')"
| "py_getitem (JList xs) key =
     Inl (Exn TypeError ''list indices must be integers or slices, not str'')"
| "py_getitem v key =
     Inl (Exn TypeError (quoted (type_name v) @ '' object is not subscriptable''))"

text \<open>
  \<^verbatim>\<open>str.strip()\<close> removes the leading and trailing characters for which
  \<^verbatim>\<open>str.isspace\<close> holds. A \<open>char\<close> stands for a code point below 256; among
  these the whitespace characters are U+0009 to U+000D, U+001C to U+001F, U+0020,
  U+0085 and U+00A0. A str is true when it is not empty.
\<close>

definition is_space :: "char \<Rightarrow> bool" where
  "is_space c = (c \<in> set [CHR 0x09, CHR 0x0A, CHR 0x0B, CHR 0x0C, CHR 0x0D,
                           CHR 0x1C, CHR 0x1D, CHR 0x1E, CHR 0x1F, CHR 0x20,
                           CHR 0x85, CHR 0xA0])"

definition strip :: "string \<Rightarrow> string" where
  "strip s = rev (dropWhile is_space (rev (dropWhile is_space s)))"

definition truthy :: "string \<Rightarrow> bool" where
  "truthy s = (s \<noteq> [])"

text \<open>\<^verbatim>\<open>os.path.join\<close> of two components (POSIX).\<close>

definition os_path_join :: "string \<Rightarrow> string \<Rightarrow> string" where
  "os_path_join a b =
     (if starts_with ''/'' b then b
      else if a = [] \<or> last a = CHR ''/'' then a @ b
      else a @ ''/'' @ b)"

section \<open>Regular expressions\<close>

text \<open>
  The fragment of the \<^verbatim>\<open>re\<close> syntax the module uses. \<open>rx_match r s\<close> lists what
  is left of \<open>s\<close> after each way of matching \<open>r\<close> at its start; \<^verbatim>\<open>re.match\<close>
  succeeds when there is one. The dot matches every character but the newline.
\<close>

datatype rx = Lit string | Seq rx rx | Alt rx rx | Opt rx | Dot_star

fun dot_star :: "string \<Rightarrow> string list" where
  "dot_star [] = [[]]"
| "dot_star (c # cs) = (c # cs) # (if c = CHR 0x0A then [] else dot_star cs)"

fun rx_match :: "rx \<Rightarrow> string \<Rightarrow> string list" where
  "rx_match (Lit p) s = (if starts_with p s then [drop (length p) s] else [])"
| "rx_match (Seq a b) s = concat (map (rx_match b) (rx_match a s))"
| "rx_match (Alt a b) s = rx_match a s @ rx_match b s"
| "rx_match (Opt a) s = rx_match a s @ [s]"
| "rx_match Dot_star s = dot_star s"

definition re_match :: "rx \<Rightarrow> string \<Rightarrow> bool" where
  "re_match r s = (rx_match r s \<noteq> [])"

text \<open>\<^verbatim>\<open>YOUTUBE_REGEX = r'(https?://)?(www\.)?(youtube|youtu)\.(com|be)/.*'\<close>\<close>

definition YOUTUBE_REGEX :: rx where
  "YOUTUBE_REGEX =
     Seq (Opt (Seq (Lit ''http'') (Seq (Opt (Lit ''s'')) (Lit ''://''))))
    (Seq (Opt (Lit ''www.''))
    (Seq (Alt (Lit ''youtube'') (Lit ''youtu''))
    (Seq (Lit ''.'')
    (Seq (Alt (Lit ''com'') (Lit ''be''))
    (Seq (Lit ''/'') Dot_star)))))"

definition validate_youtube_url :: "string \<Rightarrow> bool" where
  "validate_youtube_url url = re_match YOUTUBE_REGEX url"

section \<open>The outside world\<close>

text \<open>
  \<open>completed_process\<close> is the result of \<^verbatim>\<open>subprocess.run\<close> with captured text output;
  \<open>cp_stdout\<close> holds \<^verbatim>\<open>result.stdout.splitlines()\<close>.

  \<open>popen\<close> is a handle returned by \<^verbatim>\<open>subprocess.Popen\<close>: the lines read from its
  standard output until it is closed, the text of its standard error, the exit status
  that \<^verbatim>\<open>wait()\<close> delivers, and the time the process needs to exit once it has been
  sent the terminate signal (\<open>None\<close>: it does not exit).
\<close>

record completed_process =
  cp_returncode :: int
  cp_stdout :: "string list"
  cp_stderr :: string

record popen =
  stdout :: "string list"
  stderr :: string
  returncode :: int
  term_delay :: "nat option"

record env =
  json_loads :: "string \<Rightarrow> exn + json"
  DOWNLOADS_DIR :: string
  os_makedirs :: "string \<Rightarrow> exn option"
  subprocess_run :: "string list \<Rightarrow> nat \<Rightarrow> exn + completed_process"
  subprocess_Popen :: "string list \<Rightarrow> exn + popen"

text \<open>\<^verbatim>\<open>download_sessions: Dict[str, subprocess.Popen]\<close>\<close>

type_synonym registry = "string \<rightharpoonup> popen"

section \<open>Events and effects\<close>

text \<open>
  The frames the generator yields, \<^verbatim>\<open>event: <kind>\ndata: <payload>\n\n\<close>. A
  \<open>Progress\<close> frame keeps the three values of the dict that \<^verbatim>\<open>json.dumps\<close>
  serialises; \<open>Complete\<close> carries the fixed text \<^verbatim>\<open>Download finished successfully\<close>.
\<close>

datatype event =
  Total nat
  | Progress (video: json) (completed: nat) (total: nat)
  | Complete
  | Error string

text \<open>
  A run of the generator is the sequence of its effects, in program order: the frames
  it yields, what it prints, the library calls it makes and its writes to
  \<^verbatim>\<open>download_sessions\<close>. \<open>Sessions_discard\<close> is the \<^verbatim>\<open>finally\<close> block.
\<close>

datatype step =
  Yield event
  | Print string
  | Makedirs string
  | Run "string list" nat
  | Popen "string list"
  | Sessions_put string popen
  | Sessions_discard string

fun do_step :: "step \<Rightarrow> registry \<Rightarrow> registry" where
  "do_step (Sessions_put sid p) r = r(sid \<mapsto> p)"
| "do_step (Sessions_discard sid) r =
     (case r sid of None \<Rightarrow> r | Some p \<Rightarrow> r(sid := None))"
| "do_step s r = r"

fun exec :: "step list \<Rightarrow> registry \<Rightarrow> registry" where
  "exec [] r = r"
| "exec (s # ss) r = exec ss (do_step s r)"

text \<open>The registry after each step of a run, in order.\<close>

fun registries :: "step list \<Rightarrow> registry \<Rightarrow> registry list" where
  "registries [] r = []"
| "registries (s # ss) r = do_step s r # registries ss (do_step s r)"

fun events :: "step list \<Rightarrow> event list" where
  "events [] = []"
| "events (Yield e # ss) = e # events ss"
| "events (s # ss) = events ss"

fun is_put :: "step \<Rightarrow> bool" where
  "is_put (Sessions_put sid p) = True"
| "is_put s = False"

fun is_popen :: "step \<Rightarrow> bool" where
  "is_popen (Popen c) = True"
| "is_popen s = False"

fun is_progress :: "event \<Rightarrow> bool" where
  "is_progress (Progress v c t) = True"
| "is_progress e = False"

fun is_error :: "event \<Rightarrow> bool" where
  "is_error (Error m) = True"
| "is_error e = False"

section \<open>Enumeration\<close>

text \<open>
  \<^verbatim>\<open>sum(1 for line in result.stdout.splitlines()
        if line.strip() and 'id' in json.loads(line))\<close>
  The first exception raised by a line ends the sum.
\<close>

fun count_ids :: "(string \<Rightarrow> exn + json) \<Rightarrow> string list \<Rightarrow> exn + nat" where
  "count_ids loads [] = Inr 0"
| "count_ids loads (line # lines) =
     (if truthy (strip line) then
        (case loads line of
           Inl e \<Rightarrow> Inl e
         | Inr v \<Rightarrow>
             (case py_in ''id'' v of
                Inl e \<Rightarrow> Inl e
              | Inr b \<Rightarrow>
                  (case count_ids loads lines of
                     Inl e \<Rightarrow> Inl e
                   | Inr n \<Rightarrow> Inr ((if b then 1 else 0) + n))))
      else count_ids loads lines)"

definition enumerate_command :: "string \<Rightarrow> string list" where
  "enumerate_command playlist_url =
     [''yt-dlp'', ''--flat-playlist'', ''--print-json'', playlist_url]"

definition get_total_videos :: "env \<Rightarrow> string \<Rightarrow> step list \<times> (exn + nat)" where
  "get_total_videos E playlist_url =
     (let command = enumerate_command playlist_url;
          outcome =
            (case subprocess_run E command 30 of
               Inl e \<Rightarrow> Inl e
             | Inr result \<Rightarrow>
                 if cp_returncode result \<noteq> 0
                 then Inl (Exn Exception (''yt-dlp error: '' @ cp_stderr result))
                 else count_ids (json_loads E) (cp_stdout result))
      in case outcome of
           Inl e \<Rightarrow>
             ([Run command 30, Print (''Error getting total videos: '' @ str e)], Inl e)
         | Inr n \<Rightarrow> ([Run command 30], Inr n))"

section \<open>The streaming generator\<close>

text \<open>
  One turn of the loop over \<^verbatim>\<open>process.stdout\<close>, from the counter
  \<open>completed_videos\<close>: the new counter, the frames yielded, and the exception that
  leaves the loop, if any. Only a \<^verbatim>\<open>JSONDecodeError\<close> is caught by the inner handler.
\<close>

definition process_line ::
  "(string \<Rightarrow> exn + json) \<Rightarrow> nat \<Rightarrow> nat \<Rightarrow> string \<Rightarrow> nat \<times> step list \<times> exn option"
where
  "process_line loads total_videos completed_videos line =
     (if truthy (strip line) then
        (case loads line of
           Inl e \<Rightarrow>
             if cls e = JSONDecodeError then (completed_videos, [], None)
             else (completed_videos, [], Some e)
         | Inr video_data \<Rightarrow>
             (case py_in ''title'' video_data of
                Inl e \<Rightarrow> (completed_videos, [], Some e)
              | Inr False \<Rightarrow> (completed_videos, [], None)
              | Inr True \<Rightarrow>
                  (case py_getitem video_data ''title'' of
                     Inl e \<Rightarrow> (completed_videos + 1, [], Some e)
                   | Inr title \<Rightarrow>
                       (completed_videos + 1,
                        [Yield (Progress title (completed_videos + 1) total_videos)],
                        None))))
      else (completed_videos, [], None))"

fun read_output ::
  "(string \<Rightarrow> exn + json) \<Rightarrow> nat \<Rightarrow> nat \<Rightarrow> string list \<Rightarrow> nat \<times> step list \<times> exn option"
where
  "read_output loads total_videos completed_videos [] = (completed_videos, [], None)"
| "read_output loads total_videos completed_videos (line # lines) =
     (case process_line loads total_videos completed_videos line of
        (c, ys, Some e) \<Rightarrow> (c, ys, Some e)
      | (c, ys, None) \<Rightarrow>
          (case read_output loads total_videos c lines of
             (c', ys', x) \<Rightarrow> (c', ys @ ys', x)))"

definition download_command :: "env \<Rightarrow> string \<Rightarrow> string \<Rightarrow> string list" where
  "download_command E playlist_url format =
     [''yt-dlp'',
      ''--yes-playlist'',
      ''-f'', (if format = ''mp3'' then ''bestaudio'' else ''bestvideo+bestaudio''),
      ''-o'', os_path_join (DOWNLOADS_DIR E) ''%(title)s.%(ext)s'',
      ''--print-json'',
      ''--download-archive'', os_path_join (DOWNLOADS_DIR E) ''archive.txt'',
      ''--no-simulate'',
      ''--newline'',
      playlist_url]"

text \<open>
  The body of the outer \<^verbatim>\<open>try\<close>: its effects, and the exception that reaches the
  outer handler, if any.
\<close>

definition stream_try :: "env \<Rightarrow> string \<Rightarrow> string \<Rightarrow> string \<Rightarrow> step list \<times> exn option" where
  "stream_try E playlist_url format session_id =
     (if \<not> validate_youtube_url playlist_url then
        ([Yield (Error ''Invalid YouTube URL'')], None)
      else
        (case os_makedirs E (DOWNLOADS_DIR E) of
           Some e \<Rightarrow> ([Makedirs (DOWNLOADS_DIR E)], Some e)
         | None \<Rightarrow>
             (case get_total_videos E playlist_url of
                (s1, Inl e) \<Rightarrow>
                  (Makedirs (DOWNLOADS_DIR E) # s1 @
                     [Yield (Error (''Failed to get playlist info: '' @ str e))],
                   None)
              | (s1, Inr total_videos) \<Rightarrow>
                  (let command = download_command E playlist_url format;
                       pre = Makedirs (DOWNLOADS_DIR E) # s1 @
                               [Yield (Total total_videos), Popen command]
                   in case subprocess_Popen E command of
                        Inl e \<Rightarrow> (pre, Some e)
                      | Inr process \<Rightarrow>
                          (case read_output (json_loads E) total_videos 0 (stdout process) of
                             (c, s2, Some e) \<Rightarrow>
                               (pre @ Sessions_put session_id process # s2, Some e)
                           | (c, s2, None) \<Rightarrow>
                               (pre @ Sessions_put session_id process # s2 @
                                  [Yield (if returncode process = 0 then Complete
                                          else Error (''Download failed: '' @ stderr process))],
                                None))))))"

definition stream_playlist_download :: "env \<Rightarrow> string \<Rightarrow> string \<Rightarrow> string \<Rightarrow> step list" where
  "stream_playlist_download E playlist_url format session_id =
     (case stream_try E playlist_url format session_id of
        (tr, None) \<Rightarrow> tr @ [Sessions_discard session_id]
      | (tr, Some e) \<Rightarrow> tr @ [Yield (Error (str e)), Sessions_discard session_id])"

section \<open>The endpoints\<close>

datatype http_exception = HTTPException nat string

text \<open>
  Modelled from the spec: the validation of the query parameters is done by the web
  framework from the declarations \<^verbatim>\<open>Query(..., min_length=10)\<close> and
  \<^verbatim>\<open>Query("mp4", regex="^(mp4|mp3)$")\<close>, before the endpoint's body runs; the
  framework is not part of the repository. \<open>playlist_url\<close> is required and has at
  least 10 characters; \<open>format\<close> is one of mp4 and mp3 and defaults to mp4. A request
  that fails the validation is answered with status 422.
\<close>

definition query_playlist_url :: "string option \<Rightarrow> http_exception + string" where
  "query_playlist_url q =
     (case q of
        None \<Rightarrow> Inl (HTTPException 422 ''playlist_url: field required'')
      | Some u \<Rightarrow>
          if length u < 10 then Inl (HTTPException 422 ''playlist_url: too short'')
          else Inr u)"

definition query_format :: "string option \<Rightarrow> http_exception + string" where
  "query_format q =
     (case q of
        None \<Rightarrow> Inr ''mp4''
      | Some f \<Rightarrow>
          if f = ''mp4'' \<or> f = ''mp3'' then Inr f
          else Inl (HTTPException 422 ''format: string does not match pattern''))"

text \<open>
  \<open>download_endpoint\<close>: \<open>uuid4\<close> is the text of the fresh \<^verbatim>\<open>uuid.uuid4()\<close>. The result
  is either the rejection, or the run of the generator that the streaming response
  iterates.
\<close>

definition download_endpoint ::
  "env \<Rightarrow> string \<Rightarrow> string option \<Rightarrow> string option \<Rightarrow> http_exception + step list"
where
  "download_endpoint E uuid4 q_playlist_url q_format =
     (case query_playlist_url q_playlist_url of
        Inl err \<Rightarrow> Inl err
      | Inr playlist_url \<Rightarrow>
          (case query_format q_format of
             Inl err \<Rightarrow> Inl err
           | Inr format \<Rightarrow>
               (let session_id = uuid4
                in Inr (stream_playlist_download E playlist_url format session_id))))"

text \<open>
  \<open>cancel_download\<close>. The operations on the process handle are returned in order.
  \<^verbatim>\<open>process.wait(timeout=t)\<close> after the terminate signal returns when the process
  exits within \<open>t\<close> time units and raises \<^verbatim>\<open>TimeoutExpired\<close> otherwise. A
  \<^verbatim>\<open>Popen\<close> object defines neither \<^verbatim>\<open>__bool__\<close> nor \<^verbatim>\<open>__len__\<close>, so
  \<^verbatim>\<open>if process:\<close> holds for every handle.
\<close>

datatype proc_op = Terminate | Wait nat | Kill

definition wait_returns :: "popen \<Rightarrow> nat \<Rightarrow> bool" where
  "wait_returns p t = (case term_delay p of None \<Rightarrow> False | Some d \<Rightarrow> d \<le> t)"

definition popen_truth :: "popen \<Rightarrow> bool" where
  "popen_truth p = True"

definition cancel_download ::
  "registry \<Rightarrow> string \<Rightarrow> http_exception + (proc_op list \<times> registry \<times> string)"
where
  "cancel_download download_sessions session_id =
     (case download_sessions session_id of
        None \<Rightarrow> Inl (HTTPException 404 ''Session not found'')
      | Some process \<Rightarrow>
          (let message = ''Download session '' @ session_id @ '' cancelled''
           in if popen_truth process then
                Inr ([Terminate, Wait 5] @ (if wait_returns process 5 then [] else [Kill]),
                     download_sessions(session_id := None),
                     message)
              else Inr ([], download_sessions, message)))"

section \<open>Predicates on the tool's output\<close>

text \<open>
  How the download loop sees a line: \<open>undecodable\<close> when \<^verbatim>\<open>json.loads\<close> raises
  \<^verbatim>\<open>JSONDecodeError\<close> on it; a \<open>title_record\<close> when it is non-blank and decodes
  to a dict with the key \<open>title\<close>; a \<open>record_line\<close> when it is blank, undecodable or
  decodes to a dict, which is the output the tool is documented to write (one JSON object
  per item, among lines that are no JSON).
\<close>

definition undecodable :: "(string \<Rightarrow> exn + json) \<Rightarrow> string \<Rightarrow> bool" where
  "undecodable loads line =
     (case loads line of Inl e \<Rightarrow> cls e = JSONDecodeError | Inr v \<Rightarrow> False)"

definition title_record :: "(string \<Rightarrow> exn + json) \<Rightarrow> string \<Rightarrow> bool" where
  "title_record loads line =
     (truthy (strip line) \<and>
      (case loads line of
         Inr (JDict kvs) \<Rightarrow> ''title'' \<in> set (map fst kvs)
       | _ \<Rightarrow> False))"

definition record_line :: "(string \<Rightarrow> exn + json) \<Rightarrow> string \<Rightarrow> bool" where
  "record_line loads line =
     (\<not> truthy (strip line) \<or> undecodable loads line \<or>
      (case loads line of Inr (JDict kvs) \<Rightarrow> True | _ \<Rightarrow> False))"

text \<open>
  How the enumeration sees a line: \<open>counted\<close> when it is non-blank, decodes, and
  \<^verbatim>\<open>'id' in\<close> the decoded value holds; a \<open>countable_line\<close> when it is blank, or
  decodes to a value on which \<^verbatim>\<open>in\<close> does not raise.
\<close>

definition counted :: "(string \<Rightarrow> exn + json) \<Rightarrow> string \<Rightarrow> bool" where
  "counted loads line =
     (truthy (strip line) \<and>
      (case loads line of Inl e \<Rightarrow> False | Inr v \<Rightarrow> py_in ''id'' v = Inr True))"

definition countable_line :: "(string \<Rightarrow> exn + json) \<Rightarrow> string \<Rightarrow> bool" where
  "countable_line loads line =
     (if truthy (strip line) then
        (case loads line of
           Inl e \<Rightarrow> False
         | Inr v \<Rightarrow> (case py_in ''id'' v of Inl e \<Rightarrow> False | Inr b \<Rightarrow> True))
      else True)"

text \<open>The \<open>completed\<close> and \<open>total\<close> fields of a \<open>Progress\<close> frame.\<close>

fun progress_info :: "event \<Rightarrow> (nat \<times> nat) option" where
  "progress_info (Progress v c t) = Some (c, t)"
| "progress_info e = None"

section \<open>A concrete outside world\<close>

text \<open>
  For the examples: a decoder that knows a few lines of the tool's output (among them
  a line of 1000 opening brackets, on which \<^verbatim>\<open>json.loads\<close> raises
  \<^verbatim>\<open>RecursionError\<close>) and raises \<^verbatim>\<open>JSONDecodeError\<close> on every other text, an environment built from the outcome
  of the enumeration and the outcome of starting the download, and some outputs.
\<close>

definition demo_loads :: "string \<Rightarrow> exn + json" where
  \<open>demo_loads s =
     (if s = ''{"id": "v1"}'' then Inr (JDict [(''id'', JStr ''v1'')])
      else if s = ''{"id": "v2"}'' then Inr (JDict [(''id'', JStr ''v2'')])
      else if s = ''{"title": "First"}'' @ [CHR 0x0A]
        then Inr (JDict [(''title'', JStr ''First'')])
      else if s = ''{"title": "Second"}'' @ [CHR 0x0A]
        then Inr (JDict [(''title'', JStr ''Second'')])
      else if s = ''{"_type": "playlist"}'' @ [CHR 0x0A]
        then Inr (JDict [(''_type'', JStr ''playlist'')])
      else if s = ''5'' @ [CHR 0x0A] then Inr (JInt 5)
      else if s = replicate 1000 (CHR ''['') @ [CHR 0x0A]
        then Inl (Exn RecursionError
               ''maximum recursion depth exceeded while decoding a JSON array from a unicode string'')
      else Inl (Exn JSONDecodeError ''Expecting value: line 1 column 1 (char 0)''))\<close>

definition demo_env :: "(exn + completed_process) \<Rightarrow> (exn + popen) \<Rightarrow> env" where
  "demo_env enumeration download =
     \<lparr>json_loads = demo_loads,
      DOWNLOADS_DIR = ''/home/user/Downloads'',
      os_makedirs = (\<lambda>d. None),
      subprocess_run = (\<lambda>command timeout. enumeration),
      subprocess_Popen = (\<lambda>command. download)\<rparr>"

definition demo_url :: string where
  "demo_url = ''https://www.youtube.com/playlist?list=PL123''"

definition demo_listing :: completed_process where
  \<open>demo_listing =
     \<lparr>cp_returncode = 0,
      cp_stdout = [''{"id": "v1"}'', [], ''{"id": "v2"}''],
      cp_stderr = []\<rparr>\<close>

definition demo_spaces_listing :: completed_process where
  \<open>demo_spaces_listing =
     \<lparr>cp_returncode = 0,
      cp_stdout = [''{"id": "v1"}'', ''   '', ''{"id": "v2"}''],
      cp_stderr = []\<rparr>\<close>

definition demo_failed_listing :: completed_process where
  "demo_failed_listing =
     \<lparr>cp_returncode = 1,
      cp_stdout = [],
      cp_stderr = ''ERROR: The playlist does not exist''\<rparr>"

definition demo_warning_line :: string where
  "demo_warning_line = ''WARNING: skipping unavailable video''"

definition demo_bad_listing :: completed_process where
  \<open>demo_bad_listing =
     \<lparr>cp_returncode = 0,
      cp_stdout = [''{"id": "v1"}'', demo_warning_line],
      cp_stderr = []\<rparr>\<close>

definition demo_first_line :: string where
  \<open>demo_first_line = ''{"title": "First"}'' @ [CHR 0x0A]\<close>

definition demo_second_line :: string where
  \<open>demo_second_line = ''{"title": "Second"}'' @ [CHR 0x0A]\<close>

definition demo_noise_line :: string where
  "demo_noise_line = ''[download] 100% of 3.41MiB'' @ [CHR 0x0A]"

definition demo_number_line :: string where
  "demo_number_line = ''5'' @ [CHR 0x0A]"

definition demo_deep_line :: string where
  "demo_deep_line = replicate 1000 (CHR ''['') @ [CHR 0x0A]"

definition demo_number_output :: "string list" where
  "demo_number_output = [demo_first_line, demo_number_line]"

definition demo_deep_output :: "string list" where
  "demo_deep_output = [demo_first_line, demo_deep_line, demo_second_line]"

definition demo_output :: "string list" where
  "demo_output = [demo_first_line, demo_noise_line, demo_second_line]"

definition demo_partial_output :: "string list" where
  "demo_partial_output = [demo_first_line, demo_noise_line]"

definition demo_download :: "string list \<Rightarrow> int \<Rightarrow> popen" where
  "demo_download lines rc =
     \<lparr>stdout = lines,
      stderr = ''ERROR: unable to download video data'',
      returncode = rc,
      term_delay = Some 1\<rparr>"

section \<open>Facts about runs\<close>

lemma exec_append: "exec (xs @ ys) r = exec ys (exec xs r)"
  by (induction xs arbitrary: r) auto

lemma events_append: "events (xs @ ys) = events xs @ events ys"
  by (induction xs rule: events.induct) auto

lemma events_map_Yield: "events (map Yield ps) = ps"
  by (induction ps) auto

lemma registries_append:
  "registries (xs @ ys) r = registries xs r @ registries ys (exec xs r)"
  by (induction xs arbitrary: r) auto

lemma do_step_discard: "do_step (Sessions_discard sid) r sid = None"
  by (cases "r sid") auto

lemma process_line_cases:
  assumes "process_line L t c l = (c', ys, x)"
  shows "(ys = [] \<and> (x = None \<longrightarrow> c' = c)) \<or> (\<exists>v. ys = [Yield (Progress v (Suc c) t)] \<and> x = None \<and> c' = Suc c)"
  using assms
  by (auto simp: process_line_def split: sum.splits bool.splits if_splits)

lemma read_output_shape:
  assumes "read_output L t c ls = (c', ys, x)"
  shows "ys = map Yield (events ys) \<and>
     map progress_info (events ys) = map (\<lambda>k. Some (k, t)) [Suc c..<Suc c + length ys]"
  using assms
proof (induction ls arbitrary: c c' ys x)
  case Nil
  then show ?case by simp
next
  case (Cons l ls)
  obtain c1 ys1 x1 where p: "process_line L t c l = (c1, ys1, x1)"
    by (metis prod_cases3)
  note s = process_line_cases [OF p]
  show ?case
  proof (cases x1)
    case (Some e)
    with p s Cons.prems show ?thesis by auto
  next
    case None
    obtain c2 ys2 x2 where r: "read_output L t c1 ls = (c2, ys2, x2)"
      by (metis prod_cases3)
    note ih = Cons.IH [OF r]
    from p r None Cons.prems have ys: "ys = ys1 @ ys2" by simp
    from s show ?thesis
    proof (rule disjE)
      assume "ys1 = [] \<and> (x1 = None \<longrightarrow> c1 = c)"
      with None ih ys show ?thesis by simp
    next
      assume "\<exists>v. ys1 = [Yield (Progress v (Suc c) t)] \<and> x1 = None \<and> c1 = Suc c"
      then obtain v where v: "ys1 = [Yield (Progress v (Suc c) t)]" "c1 = Suc c" by blast
      with ys have "[Suc c..<Suc c + length ys] = Suc c # [Suc c1..<Suc c1 + length ys2]"
        by (simp add: upt_conv_Cons del: upt_Suc)
      with v ih ys show ?thesis by (simp del: upt_Suc)
    qed
  qed
qed

lemma get_total_videos_steps:
  "fst (get_total_videos E u) = [Run (enumerate_command u) 30] \<or>
   (\<exists>m. fst (get_total_videos E u) = [Run (enumerate_command u) 30, Print m])"
  by (simp add: get_total_videos_def Let_def split: sum.splits)

lemma read_output_no_discard:
  assumes "read_output L t c ls = (c', ys, x)"
  shows "Sessions_discard sid \<notin> set ys"
proof -
  from read_output_shape [OF assms] have "ys = map Yield (events ys)" by simp
  then have "set ys \<subseteq> range Yield" by (metis image_subset_iff list.set_map rangeI)
  then show ?thesis by auto
qed

lemma stream_try_no_discard: "Sessions_discard sid' \<notin> set (fst (stream_try E u f sid))"
proof -
  obtain s1 res where g: "get_total_videos E u = (s1, res)" by (cases "get_total_videos E u")
  have s1: "Sessions_discard sid' \<notin> set s1"
    using get_total_videos_steps [of E u] g by auto
  show ?thesis
    using s1 g read_output_no_discard
    by (auto simp: stream_try_def Let_def split: option.splits sum.splits prod.splits)
qed

lemma events_get_total_videos: "events (fst (get_total_videos E u)) = []"
  by (simp add: get_total_videos_def Let_def split: sum.splits)

lemma put_get_total_videos: "\<not> list_ex is_put (fst (get_total_videos E u))"
  by (simp add: get_total_videos_def Let_def split: sum.splits)

lemma stream_download_phase:
  assumes "validate_youtube_url u" and "os_makedirs E (DOWNLOADS_DIR E) = None"
    and "get_total_videos E u = (s1, Inr N)"
    and "subprocess_Popen E (download_command E u f) = Inr p"
    and "read_output (json_loads E) N 0 (stdout p) = (c, ys, None)"
  shows "stream_playlist_download E u f sid =
           Makedirs (DOWNLOADS_DIR E) # s1 @
           [Yield (Total N), Popen (download_command E u f), Sessions_put sid p] @ ys @
           [Yield (if returncode p = 0 then Complete
                   else Error (''Download failed: '' @ stderr p)),
            Sessions_discard sid]"
  using assms by (simp add: stream_playlist_download_def stream_try_def Let_def)

lemma map_of_key: "k \<in> set (map fst kvs) \<Longrightarrow> \<exists>v. map_of kvs k = Some v"
  by (induction kvs) auto

lemma record_line_cases:
  assumes "record_line L l" and "truthy (strip l)"
  shows "(\<exists>e. L l = Inl e \<and> cls e = JSONDecodeError) \<or> (\<exists>kvs. L l = Inr (JDict kvs))"
proof (cases "L l")
  case (Inl e)
  with assms show ?thesis by (simp add: record_line_def undecodable_def)
next
  case (Inr v)
  with assms show ?thesis by (cases v) (simp_all add: record_line_def undecodable_def)
qed

lemma process_line_blank:
  "\<not> truthy (strip l) \<Longrightarrow> process_line L t c l = (c, [], None)"
  by (simp add: process_line_def)

lemma process_line_undecodable:
  "L l = Inl e \<Longrightarrow> cls e = JSONDecodeError \<Longrightarrow> process_line L t c l = (c, [], None)"
  by (simp add: process_line_def)

lemma process_line_dict:
  assumes "truthy (strip l)" and "L l = Inr (JDict kvs)"
  shows "process_line L t c l =
    (case map_of kvs ''title'' of
       None \<Rightarrow> (c, [], None)
     | Some x \<Rightarrow> (c + 1, [Yield (Progress x (c + 1) t)], None))"
proof (cases "map_of kvs ''title''")
  case None
  then have "''title'' \<notin> set (map fst kvs)" by (simp add: map_of_eq_None_iff)
  with assms None show ?thesis by (simp add: process_line_def)
next
  case (Some x)
  then have "''title'' \<in> set (map fst kvs)" by (metis map_of_eq_None_iff option.distinct(1) set_map)
  with assms Some show ?thesis by (simp add: process_line_def)
qed

lemma title_record_dict:
  assumes "L l = Inr (JDict kvs)"
  shows "title_record L l = (truthy (strip l) \<and> map_of kvs ''title'' \<noteq> None)"
proof -
  have "(''title'' \<in> set (map fst kvs)) = (map_of kvs ''title'' \<noteq> None)"
    by (simp add: map_of_eq_None_iff)
  with assms show ?thesis unfolding title_record_def by simp
qed

lemma title_record_Inl: "L l = Inl e \<Longrightarrow> \<not> title_record L l"
  unfolding title_record_def by simp

lemma title_record_blank: "\<not> truthy (strip l) \<Longrightarrow> \<not> title_record L l"
  unfolding title_record_def by simp

lemma process_line_record:
  assumes "record_line L l"
  shows "\<exists>ys. process_line L t c l = (if title_record L l then Suc c else c, ys, None)
     \<and> length ys = (if title_record L l then 1 else 0)"
proof (cases "truthy (strip l)")
  case False
  then show ?thesis using process_line_blank [of l L t c] title_record_blank [of l L] by simp
next
  case True
  from record_line_cases [OF assms True] show ?thesis
  proof (rule disjE)
    assume "\<exists>e. L l = Inl e \<and> cls e = JSONDecodeError"
    then obtain e where e: "L l = Inl e" "cls e = JSONDecodeError" by blast
    from e have "process_line L t c l = (c, [], None)" by (rule process_line_undecodable)
    moreover from e(1) have "\<not> title_record L l" by (rule title_record_Inl)
    ultimately show ?thesis by simp
  next
    assume "\<exists>kvs. L l = Inr (JDict kvs)"
    then obtain kvs where d: "L l = Inr (JDict kvs)" by blast
    from True d have p: "process_line L t c l =
        (case map_of kvs ''title'' of
           None \<Rightarrow> (c, [], None)
         | Some x \<Rightarrow> (c + 1, [Yield (Progress x (c + 1) t)], None))"
      by (rule process_line_dict)
    from d have r: "title_record L l = (truthy (strip l) \<and> map_of kvs ''title'' \<noteq> None)"
      by (rule title_record_dict)
    show ?thesis
    proof (cases "map_of kvs ''title''")
      case None
      with p r show ?thesis by simp
    next
      case (Some x)
      with p r True show ?thesis by simp
    qed
  qed
qed

lemma read_output_records:
  assumes "\<forall>l\<in>set ls. record_line L l"
  shows "\<exists>ys. read_output L t c ls = (c + length (filter (title_record L) ls), ys, None)
     \<and> length ys = length (filter (title_record L) ls)"
  using assms
proof (induction ls arbitrary: c)
  case Nil
  then show ?case by simp
next
  case (Cons l ls)
  then have "record_line L l" by simp
  from process_line_record [OF this, of t c] obtain ys1 where
    p: "process_line L t c l = (if title_record L l then Suc c else c, ys1, None)"
    and n: "length ys1 = (if title_record L l then 1 else 0)" by blast
  define c1 where "c1 = (if title_record L l then Suc c else c)"
  from Cons have "\<forall>l\<in>set ls. record_line L l" by simp
  from Cons.IH [OF this, of c1] obtain ys2 where
    r: "read_output L t c1 ls = (c1 + length (filter (title_record L) ls), ys2, None)"
    and m: "length ys2 = length (filter (title_record L) ls)"
    by blast
  from p r have "read_output L t c (l # ls) =
      (c1 + length (filter (title_record L) ls), ys1 @ ys2, None)"
    by (simp add: c1_def)
  moreover have "c1 + length (filter (title_record L) ls) = c + length (filter (title_record L) (l # ls))"
    by (simp add: c1_def)
  moreover have "length (ys1 @ ys2) = length (filter (title_record L) (l # ls))"
    using n m by simp
  ultimately show ?case by metis
qed


lemma exec_stream_discard:
  "exec (stream_playlist_download E u f sid) r sid = None"
proof -
  obtain tr x where t: "stream_try E u f sid = (tr, x)" by (cases "stream_try E u f sid")
  show ?thesis
  proof (cases x)
    case None
    with t have "stream_playlist_download E u f sid = tr @ [Sessions_discard sid]"
      by (simp add: stream_playlist_download_def)
    then show ?thesis by (simp only: exec_append exec.simps do_step_discard)
  next
    case (Some e)
    with t have "stream_playlist_download E u f sid =
        (tr @ [Yield (Error (str e))]) @ [Sessions_discard sid]"
      by (simp add: stream_playlist_download_def)
    then show ?thesis by (simp only: exec_append exec.simps do_step_discard)
  qed
qed

lemma download_phase_events:
  assumes v: "validate_youtube_url u" and m: "os_makedirs E (DOWNLOADS_DIR E) = None"
    and g: "snd (get_total_videos E u) = Inr N"
    and p: "subprocess_Popen E (download_command E u f) = Inr p"
    and ls: "\<forall>l\<in>set (stdout p). record_line (json_loads E) l"
    and k: "length (filter (title_record (json_loads E)) (stdout p)) = k"
  shows "\<exists>ps. events (stream_playlist_download E u f sid) =
           Total N # ps @ [if returncode p = 0 then Complete
                           else Error (''Download failed: '' @ stderr p)]
         \<and> map progress_info ps = map (\<lambda>j. Some (j, N)) [1..<Suc k]"
proof -
  obtain s1 where g': "get_total_videos E u = (s1, Inr N)"
    using g by (cases "get_total_videos E u") simp
  from read_output_records [OF ls, of N 0] k obtain ys where
    r: "read_output (json_loads E) N 0 (stdout p) = (k, ys, None)" and n: "length ys = k"
    by auto
  from read_output_shape [OF r] have
    y: "ys = map Yield (events ys)" and
    i: "map progress_info (events ys) = map (\<lambda>j. Some (j, N)) [Suc 0..<Suc 0 + length ys]"
    by simp_all
  have e1: "events s1 = []" using events_get_total_videos [of E u] g' by simp
  have "events (stream_playlist_download E u f sid) =
      Total N # events ys @ [if returncode p = 0 then Complete
                             else Error (''Download failed: '' @ stderr p)]"
    unfolding stream_download_phase [OF v m g' p r]
    by (simp add: events_append e1)
  moreover from i n have "map progress_info (events ys) = map (\<lambda>j. Some (j, N)) [1..<Suc k]"
    by simp
  ultimately show ?thesis by blast
qed

lemma demo_url_valid: "validate_youtube_url demo_url"
  by code_simp

lemma demo_total: "snd (get_total_videos (demo_env (Inr demo_listing) d) demo_url) = Inr 2"
  by (simp add: get_total_videos_def demo_env_def demo_listing_def demo_loads_def
      truthy_def strip_def is_space_def)



lemma registries_discard_only:
  "\<forall>r'\<in>set (registries [Sessions_discard sid] r). dom r' \<subseteq> dom r"
  by (auto split: option.splits if_splits)

lemma get_total_videos_fails:
  assumes "case subprocess_run E (enumerate_command u) 30 of
             Inl e \<Rightarrow> True | Inr result \<Rightarrow> cp_returncode result \<noteq> 0"
  shows "\<exists>e. get_total_videos E u =
           ([Run (enumerate_command u) 30, Print (''Error getting total videos: '' @ str e)], Inl e)"
  using assms by (simp add: get_total_videos_def Let_def split: sum.splits)

lemma stream_enumeration_error:
  assumes "validate_youtube_url u" and "os_makedirs E (DOWNLOADS_DIR E) = None"
    and "get_total_videos E u = (s1, Inl e)"
  shows "stream_playlist_download E u f sid =
           Makedirs (DOWNLOADS_DIR E) # s1 @
           [Yield (Error (''Failed to get playlist info: '' @ str e)), Sessions_discard sid]"
  using assms by (simp add: stream_playlist_download_def stream_try_def)

lemma counted_blank: "\<not> truthy (strip l) \<Longrightarrow> \<not> counted L l"
  unfolding counted_def by simp

lemma counted_decoded:
  "truthy (strip l) \<Longrightarrow> L l = Inr v \<Longrightarrow> py_in ''id'' v = Inr b \<Longrightarrow> counted L l = b"
  unfolding counted_def by simp

lemma countable_blank: "\<not> truthy (strip l) \<Longrightarrow> countable_line L l"
  unfolding countable_line_def by simp

lemma countable_decoded:
  "truthy (strip l) \<Longrightarrow> L l = Inr v \<Longrightarrow> py_in ''id'' v = Inr b \<Longrightarrow> countable_line L l"
  unfolding countable_line_def by simp

lemma count_ids_Inr:
  "count_ids L ls = Inr n \<Longrightarrow>
     list_all (countable_line L) ls \<and> n = length (filter (counted L) ls)"
proof (induction ls arbitrary: n)
  case Nil
  then show ?case by simp
next
  case (Cons l ls)
  show ?case
  proof (cases "truthy (strip l)")
    case False
    with Cons show ?thesis by (simp add: countable_blank counted_blank)
  next
    case True
    with Cons.prems obtain v b m where
      v: "L l = Inr v" and b: "py_in ''id'' v = Inr b" and m: "count_ids L ls = Inr m"
      and n: "n = (if b then 1 else 0) + m"
      by (auto split: sum.splits)
    from True v b have "counted L l = b" by (rule counted_decoded)
    moreover from True v b have "countable_line L l" by (rule countable_decoded)
    ultimately show ?thesis using Cons.IH [OF m] n by simp
  qed
qed

lemma count_ids_total:
  "list_all (countable_line L) ls \<Longrightarrow> count_ids L ls = Inr (length (filter (counted L) ls))"
proof (induction ls)
  case Nil
  then show ?case by simp
next
  case (Cons l ls)
  then have ih: "count_ids L ls = Inr (length (filter (counted L) ls))" by simp
  show ?case
  proof (cases "truthy (strip l)")
    case False
    with ih show ?thesis by (simp add: counted_blank)
  next
    case True
    from Cons.prems have "countable_line L l" by simp
    with True obtain v b where v: "L l = Inr v" and b: "py_in ''id'' v = Inr b"
      by (auto simp: countable_line_def split: sum.splits)
    from True v b have "counted L l = b" by (rule counted_decoded)
    with True v b ih show ?thesis by simp
  qed
qed

lemma count_ids_bad_line:
  assumes "l \<in> set ls" and "truthy (strip l)" and "L l = Inl e"
  shows "\<exists>e'. count_ids L ls = Inl e'"
proof (cases "count_ids L ls")
  case (Inl e')
  then show ?thesis by blast
next
  case (Inr n)
  from count_ids_Inr [OF this] have "list_all (countable_line L) ls" by simp
  with assms(1) have "countable_line L l" by (simp add: list_all_iff)
  with assms(2,3) show ?thesis by (simp add: countable_line_def)
qed

lemma get_total_videos_listing:
  assumes "subprocess_run E (enumerate_command u) 30 = Inr result" and "cp_returncode result = 0"
  shows "snd (get_total_videos E u) = count_ids (json_loads E) (cp_stdout result)"
  using assms by (simp add: get_total_videos_def Let_def split: sum.splits)

lemma stream_enumeration_error_events:
  assumes "validate_youtube_url u" and "os_makedirs E (DOWNLOADS_DIR E) = None"
    and "snd (get_total_videos E u) = Inl e"
  shows "events (stream_playlist_download E u f sid) =
           [Error (''Failed to get playlist info: '' @ str e)]
       \<and> \<not> list_ex is_popen (stream_playlist_download E u f sid)"
proof -
  obtain s1 where g: "get_total_videos E u = (s1, Inl e)"
    using assms(3) by (cases "get_total_videos E u") simp
  have e1: "events s1 = []" using events_get_total_videos [of E u] g by simp
  have p1: "\<not> list_ex is_popen s1" using get_total_videos_steps [of E u] g by auto
  show ?thesis
    unfolding stream_enumeration_error [OF assms(1,2) g]
    using e1 p1 by (simp add: events_append)
qed

lemma process_line_skip:
  assumes "undecodable L l"
  shows "process_line L t c l = (c, [], None)"
proof (cases "L l")
  case (Inl e)
  with assms have "cls e = JSONDecodeError" by (simp add: undecodable_def)
  with Inl show ?thesis by (rule process_line_undecodable)
next
  case (Inr v)
  with assms show ?thesis by (simp add: undecodable_def)
qed

lemma read_output_skip:
  assumes "undecodable L l"
  shows "read_output L t c (xs @ l # ys) = read_output L t c (xs @ ys)"
proof (induction xs arbitrary: c)
  case Nil
  show ?case using process_line_skip [OF assms, of t c]
    by (cases "read_output L t c ys") simp
next
  case (Cons x xs)
  obtain c1 ys1 x1 where p: "process_line L t c x = (c1, ys1, x1)" by (metis prod_cases3)
  show ?case
  proof (cases x1)
    case None
    with p Cons [of c1] show ?thesis by simp
  next
    case (Some e)
    with p show ?thesis by simp
  qed
qed

lemma process_line_not_container:
  assumes "truthy (strip l)" and "L l = Inr (JInt i)"
  shows "\<exists>e. process_line L t c l = (c, [], Some e) \<and> cls e = TypeError"
  using assms by (simp add: process_line_def)

lemma progress_info_is_progress: "progress_info e = Some x \<Longrightarrow> is_progress e"
  by (cases e) simp_all

lemma numbered_all_progress:
  assumes "map progress_info ps = map (\<lambda>k. Some (k, N)) ks"
  shows "filter is_progress ps = ps"
proof -
  have "\<forall>e\<in>set ps. is_progress e"
  proof
    fix e assume "e \<in> set ps"
    then have "progress_info e \<in> set (map progress_info ps)" by simp
    with assms obtain k where "progress_info e = Some (k, N)" by auto
    then show "is_progress e" by (rule progress_info_is_progress)
  qed
  then show ?thesis by simp
qed

lemma stream_events_cases:
  "(\<exists>m. events (stream_playlist_download E u f sid) = [Error m])
 \<or> (\<exists>N m. snd (get_total_videos E u) = Inr N
         \<and> events (stream_playlist_download E u f sid) = [Total N, Error m])
 \<or> (\<exists>N (p::popen) c ys x e. snd (get_total_videos E u) = Inr N
         \<and> read_output (json_loads E) N 0 (stdout p) = (c, ys, x)
         \<and> events (stream_playlist_download E u f sid) = Total N # events ys @ [e]
         \<and> \<not> is_progress e)"
proof (cases "validate_youtube_url u")
  case False
  then show ?thesis by (simp add: stream_playlist_download_def stream_try_def)
next
  case v: True
  show ?thesis
  proof (cases "os_makedirs E (DOWNLOADS_DIR E)")
    case (Some e)
    with v show ?thesis by (simp add: stream_playlist_download_def stream_try_def)
  next
    case m: None
    obtain s1 res where g: "get_total_videos E u = (s1, res)" by (cases "get_total_videos E u")
    have e1: "events s1 = []" using events_get_total_videos [of E u] g by simp
    show ?thesis
    proof (cases res)
      case (Inl e)
      with v m g e1 show ?thesis
        by (simp add: stream_playlist_download_def stream_try_def events_append)
    next
      case N: (Inr N)
      show ?thesis
      proof (cases "subprocess_Popen E (download_command E u f)")
        case (Inl e)
        with v m g N e1 have "events (stream_playlist_download E u f sid) = [Total N, Error (str e)]"
          by (simp add: stream_playlist_download_def stream_try_def events_append Let_def)
        with g N show ?thesis by simp
      next
        case p: (Inr p)
        obtain c ys x where r: "read_output (json_loads E) N 0 (stdout p) = (c, ys, x)"
          by (metis prod_cases3)
        have "\<exists>e. events (stream_playlist_download E u f sid) = Total N # events ys @ [e]
                \<and> \<not> is_progress e"
        proof (cases x)
          case None
          with v m g N p r e1 show ?thesis
            by (simp add: stream_playlist_download_def stream_try_def events_append Let_def)
        next
          case (Some e)
          with v m g N p r e1 show ?thesis
            by (simp add: stream_playlist_download_def stream_try_def events_append Let_def)
        qed
        then obtain e where "events (stream_playlist_download E u f sid) = Total N # events ys @ [e]"
          and "\<not> is_progress e" by blast
        moreover have "snd (get_total_videos E u) = Inr N" using g N by simp
        ultimately show ?thesis using r by blast
      qed
    qed
  qed
qed

lemma stream_progress_numbering:
  "\<exists>N. map progress_info (filter is_progress (events (stream_playlist_download E u f sid))) =
          map (\<lambda>k. Some (k, N))
            [1..<Suc (length (filter is_progress (events (stream_playlist_download E u f sid))))]
      \<and> (filter is_progress (events (stream_playlist_download E u f sid)) \<noteq> [] \<longrightarrow>
            snd (get_total_videos E u) = Inr N)"
proof -
  let ?S = "events (stream_playlist_download E u f sid)"
  from stream_events_cases [of E u f sid] consider
    (a) m where "?S = [Error m]"
  | (b) N m where "?S = [Total N, Error m]"
  | (c) N and p :: popen and c ys x e where "snd (get_total_videos E u) = Inr N"
      "read_output (json_loads E) N 0 (stdout p) = (c, ys, x)"
      "?S = Total N # events ys @ [e]" "\<not> is_progress e"
    by blast
  then show ?thesis
  proof cases
    case a
    then show ?thesis by simp
  next
    case b
    then show ?thesis by simp
  next
    case c
    from read_output_shape [OF c(2)] have
      y: "ys = map Yield (events ys)" and
      i: "map progress_info (events ys) = map (\<lambda>k. Some (k, N)) [Suc 0..<Suc 0 + length ys]"
      by simp_all
    from y have l: "length (events ys) = length ys" by (metis length_map)
    from numbered_all_progress [OF i] have f: "filter is_progress (events ys) = events ys" .
    from c(3,4) f have s: "filter is_progress ?S = events ys" by simp
    from i l have "map progress_info (events ys) =
        map (\<lambda>k. Some (k, N)) [1..<Suc (length (events ys))]"
      by (simp del: upt_Suc)
    with s c(1) have "map progress_info (filter is_progress ?S) =
          map (\<lambda>k. Some (k, N)) [1..<Suc (length (filter is_progress ?S))]
      \<and> (filter is_progress ?S \<noteq> [] \<longrightarrow> snd (get_total_videos E u) = Inr N)"
      by (simp del: upt_Suc)
    then show ?thesis by (rule exI)
  qed
qed

lemma process_line_counter:
  "fst (process_line L t c l) =
     (if truthy (strip l) \<and>
         (case L l of Inl e \<Rightarrow> False | Inr v \<Rightarrow> py_in ''title'' v = Inr True)
      then c + 1 else c)"
  by (simp add: process_line_def split: sum.splits bool.splits)

lemma demo_env_fields:
  "json_loads (demo_env a b) = demo_loads"
  "os_makedirs (demo_env a b) d = None"
  "subprocess_run (demo_env a b) c t = a"
  "subprocess_Popen (demo_env a b) c = b"
  by (simp_all add: demo_env_def)

lemma demo_partial_lines:
  "\<forall>line\<in>set (stdout (demo_download demo_partial_output 1)). record_line demo_loads line"
  by code_simp

lemma demo_partial_titles:
  "length (filter (title_record demo_loads) (stdout (demo_download demo_partial_output 1))) = 1"
  by code_simp

lemma vimeo_invalid: "\<not> validate_youtube_url ''https://vimeo.com/76979871''"
  by code_simp

lemma demo_listing_countable:
  "list_all (countable_line demo_loads) (cp_stdout demo_listing)"
  by code_simp

lemma demo_listing_counted:
  "length (filter (counted demo_loads) (cp_stdout demo_listing)) = 2"
  by code_simp

lemma demo_bad_line_member: "demo_warning_line \<in> set (cp_stdout demo_bad_listing)"
  by (simp add: demo_bad_listing_def)

lemma demo_bad_line_truthy: "truthy (strip demo_warning_line)"
  by code_simp

lemma demo_bad_line_loads:
  "demo_loads demo_warning_line =
     Inl (Exn JSONDecodeError ''Expecting value: line 1 column 1 (char 0)'')"
  by code_simp

lemma demo_bad_total:
  "snd (get_total_videos (demo_env (Inr demo_bad_listing) (Inr (demo_download demo_output 0)))
          demo_url) =
     Inl (Exn JSONDecodeError ''Expecting value: line 1 column 1 (char 0)'')"
  by code_simp

lemma strip_nbsp: "strip [CHR 0xA0] = []"
  by code_simp

section \<open>The properties of the specification\<close>

subsection \<open>successful run events\<close>



subsection \<open>failed download events\<close>

text \<open>
  Claim C2 as it is worded, for every output with \<open>k < N\<close> title records and a
  non-zero exit status, does not hold: when a line decodes to a value that is no
  container (here the number 5), \<^verbatim>\<open>'title' in video_data\<close> raises
  \<^verbatim>\<open>TypeError\<close>, the outer handler yields its message as the \<open>Error\<close> frame,
  and the standard error of the process is never read.
\<close>

theorem failed_download_events_counterexample:
  "snd (get_total_videos
          (demo_env (Inr demo_listing) (Inr (demo_download demo_number_output 1))) demo_url) = Inr 2
 \<and> length (filter (title_record demo_loads) (stdout (demo_download demo_number_output 1))) = 1
 \<and> returncode (demo_download demo_number_output 1) = 1
 \<and> events (stream_playlist_download
             (demo_env (Inr demo_listing) (Inr (demo_download demo_number_output 1)))
             demo_url ''mp4'' ''s1'') =
      [Total 2, Progress (JStr ''First'') 1 2,
       Error (''argument of type '' @ quoted ''int'' @ '' is not iterable'')]
 \<and> \<not> str_contains (stderr (demo_download demo_number_output 1))
        (''argument of type '' @ quoted ''int'' @ '' is not iterable'')"
  by code_simp

text \<open>
  Claim C2, as amended. Every non-blank line of the download output either fails to
  decode with \<^verbatim>\<open>JSONDecodeError\<close> or decodes to a JSON object, \<open>k < N\<close>
  of these objects have a \<open>title\<close> key, and the process exits with a non-zero status.
  Then the frames yielded are one \<open>Total N\<close>, then \<open>k\<close> \<open>Progress\<close> frames
  numbered 1, ..., \<open>k\<close>, then exactly one \<open>Error\<close> frame, whose payload ends with
  the text read from the standard error of the process; and after the run the registry
  has no entry for the session id.
\<close>

theorem failed_download_events:
  assumes "validate_youtube_url playlist_url"
    and "os_makedirs E (DOWNLOADS_DIR E) = None"
    and "snd (get_total_videos E playlist_url) = Inr N"
    and "subprocess_Popen E (download_command E playlist_url format) = Inr process"
    and "\<forall>line\<in>set (stdout process). record_line (json_loads E) line"
    and "length (filter (title_record (json_loads E)) (stdout process)) = k"
    and "k < N"
    and "returncode process \<noteq> 0"
  shows "(\<exists>ps. events (stream_playlist_download E playlist_url format session_id) =
               Total N # ps @ [Error (''Download failed: '' @ stderr process)]
             \<and> map progress_info ps = map (\<lambda>j. Some (j, N)) [1..<Suc k])
       \<and> exec (stream_playlist_download E playlist_url format session_id) r session_id = None"
  using download_phase_events [OF assms(1-6), of session_id] assms(8)
  by (simp add: exec_stream_discard)

text \<open>The statement at a concrete run.\<close>

theorem failed_download_events_witness:
  "(\<exists>ps. events (stream_playlist_download
                   (demo_env (Inr demo_listing) (Inr (demo_download demo_partial_output 1)))
                   demo_url ''mp4'' ''s1'') =
               Total 2 # ps @
                 [Error (''Download failed: '' @ stderr (demo_download demo_partial_output 1))]
             \<and> map progress_info ps = map (\<lambda>j. Some (j, 2)) [1..<Suc 1])
       \<and> exec (stream_playlist_download
                   (demo_env (Inr demo_listing) (Inr (demo_download demo_partial_output 1)))
                   demo_url ''mp4'' ''s1'') Map.empty ''s1'' = None"
proof (rule failed_download_events)
  show "validate_youtube_url demo_url" by (rule demo_url_valid)
  show "os_makedirs (demo_env (Inr demo_listing) (Inr (demo_download demo_partial_output 1)))
          (DOWNLOADS_DIR (demo_env (Inr demo_listing) (Inr (demo_download demo_partial_output 1))))
        = None"
    by (simp add: demo_env_fields)
  show "snd (get_total_videos
          (demo_env (Inr demo_listing) (Inr (demo_download demo_partial_output 1))) demo_url) = Inr 2"
    by (rule demo_total)
  show "subprocess_Popen (demo_env (Inr demo_listing) (Inr (demo_download demo_partial_output 1)))
          (download_command
             (demo_env (Inr demo_listing) (Inr (demo_download demo_partial_output 1)))
             demo_url ''mp4'')
        = Inr (demo_download demo_partial_output 1)"
    by (simp add: demo_env_fields)
  show "\<forall>line\<in>set (stdout (demo_download demo_partial_output 1)).
          record_line
            (json_loads (demo_env (Inr demo_listing) (Inr (demo_download demo_partial_output 1))))
            line"
    using demo_partial_lines by (simp add: demo_env_fields)
  show "length (filter (title_record
            (json_loads (demo_env (Inr demo_listing) (Inr (demo_download demo_partial_output 1)))))
          (stdout (demo_download demo_partial_output 1))) = 1"
    using demo_partial_titles by (simp add: demo_env_fields)
  show "(1::nat) < 2" by simp
  show "returncode (demo_download demo_partial_output 1) \<noteq> 0" by (simp add: demo_download_def)
qed

subsection \<open>cleanup ends every run\<close>

text \<open>
  Claim C3. Whatever the outside world does (invalid URL, failure to create the
  directory, failed enumeration, failure to start the download, an exception while the
  output is read, a failed or a successful download), the run ends with the discard of
  the session id from the registry, that discard happens nowhere else in the run, and
  after the run the registry has no entry for the session id.
\<close>

theorem cleanup_ends_every_run:
  "\<exists>tr. stream_playlist_download E playlist_url format session_id = tr @ [Sessions_discard session_id]
     \<and> Sessions_discard session_id \<notin> set tr
     \<and> exec (stream_playlist_download E playlist_url format session_id) r session_id = None"
proof -
  obtain tr x where t: "stream_try E playlist_url format session_id = (tr, x)"
    by (cases "stream_try E playlist_url format session_id")
  have nd: "Sessions_discard session_id \<notin> set tr"
    using stream_try_no_discard [of session_id E playlist_url format session_id] t by simp
  show ?thesis
  proof (cases x)
    case None
    have "exec (tr @ [Sessions_discard session_id]) r session_id = None"
      by (simp only: exec_append exec.simps do_step_discard)
    with t nd None show ?thesis
      by (simp add: stream_playlist_download_def)
  next
    case (Some e)
    have "stream_playlist_download E playlist_url format session_id =
        (tr @ [Yield (Error (str e))]) @ [Sessions_discard session_id]"
      using t Some by (simp add: stream_playlist_download_def)
    moreover have "Sessions_discard session_id \<notin> set (tr @ [Yield (Error (str e))])"
      using nd by simp
    moreover have "exec ((tr @ [Yield (Error (str e))]) @ [Sessions_discard session_id]) r session_id = None"
      by (simp only: exec_append exec.simps do_step_discard)
    ultimately show ?thesis by metis
  qed
qed

subsection \<open>cancel download result\<close>

text \<open>
  Claim C4. Cancelling a session id that the registry holds sends the terminate signal
  to its process, waits with a timeout of 5 time units, sends the kill signal exactly
  when the process has not exited within that time, removes the id from the registry and
  returns the confirmation message. Cancelling an id that the registry does not hold
  raises the 404 exception; no registry is returned then, so it is left as it was.
\<close>

theorem cancel_download_result:
  "(download_sessions session_id = Some process \<longrightarrow>
      cancel_download download_sessions session_id =
        Inr (Terminate # Wait 5 # (if wait_returns process 5 then [] else [Kill]),
             download_sessions(session_id := None),
             ''Download session '' @ session_id @ '' cancelled''))
 \<and> (download_sessions session_id = None \<longrightarrow>
      cancel_download download_sessions session_id =
        Inl (HTTPException 404 ''Session not found''))"
  by (simp add: cancel_download_def popen_truth_def)

text \<open>The statement at a concrete run.\<close>

theorem cancel_download_result_witness:
  "cancel_download [''s1'' \<mapsto> demo_download demo_output 0] ''s1'' =
     Inr ([Terminate, Wait 5],
          [''s1'' \<mapsto> demo_download demo_output 0](''s1'' := None),
          ''Download session s1 cancelled'')
 \<and> cancel_download [''s1'' \<mapsto> (demo_download demo_output 0)\<lparr>term_delay := Some 9\<rparr>] ''s1'' =
     Inr ([Terminate, Wait 5, Kill],
          [''s1'' \<mapsto> (demo_download demo_output 0)\<lparr>term_delay := Some 9\<rparr>](''s1'' := None),
          ''Download session s1 cancelled'')
 \<and> cancel_download [''s1'' \<mapsto> demo_download demo_output 0] ''s2'' =
     Inl (HTTPException 404 ''Session not found'')"
proof -
  have a: "[''s1'' \<mapsto> demo_download demo_output 0] ''s1'' = Some (demo_download demo_output 0)"
    by simp
  have b: "[''s1'' \<mapsto> (demo_download demo_output 0)\<lparr>term_delay := Some 9\<rparr>] ''s1'' =
      Some ((demo_download demo_output 0)\<lparr>term_delay := Some 9\<rparr>)"
    by simp
  have c: "[''s1'' \<mapsto> demo_download demo_output 0] ''s2'' = None"
    by simp
  have w1: "wait_returns (demo_download demo_output 0) 5"
    by (simp add: wait_returns_def demo_download_def)
  have w2: "\<not> wait_returns ((demo_download demo_output 0)\<lparr>term_delay := Some 9\<rparr>) 5"
    by (simp add: wait_returns_def)
  from cancel_download_result [of "[''s1'' \<mapsto> demo_download demo_output 0]" "''s1''"
      "demo_download demo_output 0"] a w1
  have r1: "cancel_download [''s1'' \<mapsto> demo_download demo_output 0] ''s1'' =
     Inr ([Terminate, Wait 5],
          [''s1'' \<mapsto> demo_download demo_output 0](''s1'' := None),
          ''Download session s1 cancelled'')"
    by simp
  from cancel_download_result
      [of "[''s1'' \<mapsto> (demo_download demo_output 0)\<lparr>term_delay := Some 9\<rparr>]" "''s1''"
      "(demo_download demo_output 0)\<lparr>term_delay := Some 9\<rparr>"] b w2
  have r2: "cancel_download [''s1'' \<mapsto> (demo_download demo_output 0)\<lparr>term_delay := Some 9\<rparr>] ''s1'' =
     Inr ([Terminate, Wait 5, Kill],
          [''s1'' \<mapsto> (demo_download demo_output 0)\<lparr>term_delay := Some 9\<rparr>](''s1'' := None),
          ''Download session s1 cancelled'')"
    by simp
  from cancel_download_result [of "[''s1'' \<mapsto> demo_download demo_output 0]" "''s2''"] c
  have r3: "cancel_download [''s1'' \<mapsto> demo_download demo_output 0] ''s2'' =
     Inl (HTTPException 404 ''Session not found'')"
    by simp
  from r1 r2 r3 show ?thesis by blast
qed

subsection \<open>undecodable line skipped\<close>

text \<open>
  Claim C5 as it is worded, for every line that fails to decode, does not hold: the
  inner handler catches \<^verbatim>\<open>JSONDecodeError\<close> only. On a line of 1000 opening
  brackets \<^verbatim>\<open>json.loads\<close> raises \<^verbatim>\<open>RecursionError\<close>, which the outer
  handler turns into an \<open>Error\<close> frame that ends the stream; the record after that
  line is never reported.
\<close>

theorem undecodable_line_skipped_counterexample:
  "truthy (strip demo_deep_line)
 \<and> demo_loads demo_deep_line =
      Inl (Exn RecursionError
        ''maximum recursion depth exceeded while decoding a JSON array from a unicode string'')
 \<and> events (stream_playlist_download
             (demo_env (Inr demo_listing) (Inr (demo_download demo_deep_output 0)))
             demo_url ''mp4'' ''s1'') =
      [Total 2, Progress (JStr ''First'') 1 2,
       Error ''maximum recursion depth exceeded while decoding a JSON array from a unicode string'']"
  by code_simp

text \<open>
  Claim C5, as amended. A line of the download output on which \<^verbatim>\<open>json.loads\<close>
  raises \<^verbatim>\<open>JSONDecodeError\<close> yields no frame, leaves the counter as it is and
  raises nothing; reading an output that contains such a line anywhere gives the same
  frames, the same counter and the same outcome as reading the output without it.
\<close>

theorem undecodable_line_skipped:
  assumes "undecodable loads line"
  shows "process_line loads total_videos completed_videos line = (completed_videos, [], None)
       \<and> read_output loads total_videos completed_videos (before @ line # after) =
           read_output loads total_videos completed_videos (before @ after)"
  using process_line_skip [OF assms] read_output_skip [OF assms] by simp

text \<open>The statement at a concrete run.\<close>

theorem undecodable_line_skipped_witness:
  "process_line demo_loads 2 0 demo_noise_line = (0, [], None)
 \<and> read_output demo_loads 2 0
      ([demo_first_line] @
       demo_noise_line #
       [demo_second_line]) =
    read_output demo_loads 2 0
      ([demo_first_line] @ [demo_second_line])"
proof (rule undecodable_line_skipped)
  show "undecodable demo_loads demo_noise_line"
    by code_simp
qed

subsection \<open>invalid url one error\<close>

text \<open>
  Claim C6. For a \<open>playlist_url\<close> that the pattern does not match, the run consists
  of one \<open>Error\<close> frame and the final discard; the registry after each step of
  the run has no key that it did not have before the run.
\<close>

theorem invalid_url_one_error:
  assumes "\<not> validate_youtube_url playlist_url"
  shows "stream_playlist_download E playlist_url format session_id =
           [Yield (Error ''Invalid YouTube URL''), Sessions_discard session_id]
       \<and> events (stream_playlist_download E playlist_url format session_id) =
           [Error ''Invalid YouTube URL'']
       \<and> (\<forall>r'\<in>set (registries (stream_playlist_download E playlist_url format session_id) r).
            dom r' \<subseteq> dom r)"
proof -
  from assms have t: "stream_playlist_download E playlist_url format session_id =
           [Yield (Error ''Invalid YouTube URL''), Sessions_discard session_id]"
    by (simp add: stream_playlist_download_def stream_try_def)
  have "\<forall>r'\<in>set (registries [Yield (Error ''Invalid YouTube URL''), Sessions_discard session_id] r).
            dom r' \<subseteq> dom r"
    using registries_discard_only [of session_id r] by simp
  with t show ?thesis by simp
qed

text \<open>The statement at a concrete run.\<close>

theorem invalid_url_one_error_witness:
  "stream_playlist_download (demo_env (Inr demo_listing) (Inr (demo_download demo_output 0)))
     ''https://vimeo.com/76979871'' ''mp4'' ''s1'' =
     [Yield (Error ''Invalid YouTube URL''), Sessions_discard ''s1'']
 \<and> events (stream_playlist_download (demo_env (Inr demo_listing) (Inr (demo_download demo_output 0)))
     ''https://vimeo.com/76979871'' ''mp4'' ''s1'') = [Error ''Invalid YouTube URL'']"
  using invalid_url_one_error [OF vimeo_invalid,
      of "demo_env (Inr demo_listing) (Inr (demo_download demo_output 0))" "''mp4''" "''s1''"
         Map.empty]
  by blast

subsection \<open>enumeration failure aborts\<close>

text \<open>
  Claim C7. When the enumeration fails, that is \<^verbatim>\<open>subprocess.run\<close> with
  timeout 30 raises (as it does when the timeout expires) or returns a non-zero exit
  status, the run prints the error, yields one \<open>Error\<close> frame and ends: the
  download process is never started, nothing is put into the registry, and the registry
  never has a key that it did not have before the run.
\<close>

theorem enumeration_failure_aborts:
  assumes "validate_youtube_url playlist_url"
    and "os_makedirs E (DOWNLOADS_DIR E) = None"
    and "case subprocess_run E (enumerate_command playlist_url) 30 of
           Inl e \<Rightarrow> True | Inr result \<Rightarrow> cp_returncode result \<noteq> 0"
  shows "\<exists>e. stream_playlist_download E playlist_url format session_id =
           [Makedirs (DOWNLOADS_DIR E),
            Run (enumerate_command playlist_url) 30,
            Print (''Error getting total videos: '' @ str e),
            Yield (Error (''Failed to get playlist info: '' @ str e)),
            Sessions_discard session_id]
       \<and> \<not> list_ex is_popen (stream_playlist_download E playlist_url format session_id)
       \<and> \<not> list_ex is_put (stream_playlist_download E playlist_url format session_id)
       \<and> (\<forall>r'\<in>set (registries (stream_playlist_download E playlist_url format session_id) r).
            dom r' \<subseteq> dom r)"
proof -
  from get_total_videos_fails [OF assms(3)] obtain e where
    g: "get_total_videos E playlist_url =
           ([Run (enumerate_command playlist_url) 30,
             Print (''Error getting total videos: '' @ str e)], Inl e)" by blast
  have t: "stream_playlist_download E playlist_url format session_id =
           [Makedirs (DOWNLOADS_DIR E),
            Run (enumerate_command playlist_url) 30,
            Print (''Error getting total videos: '' @ str e),
            Yield (Error (''Failed to get playlist info: '' @ str e)),
            Sessions_discard session_id]"
    using stream_enumeration_error [OF assms(1,2) g, of format session_id] by simp
  have p: "\<not> list_ex is_popen (stream_playlist_download E playlist_url format session_id)"
    unfolding t by simp
  have q: "\<not> list_ex is_put (stream_playlist_download E playlist_url format session_id)"
    unfolding t by simp
  have d: "\<forall>r'\<in>set (registries (stream_playlist_download E playlist_url format session_id) r).
            dom r' \<subseteq> dom r"
    unfolding t using registries_discard_only [of session_id r] by simp
  from t p q d show ?thesis by blast
qed

text \<open>The statement at a concrete run.\<close>

theorem enumeration_failure_aborts_witness:
  "\<not> list_ex is_popen
      (stream_playlist_download
         (demo_env (Inl (Exn TimeoutExpired ''Command timed out after 30 seconds''))
            (Inr (demo_download demo_output 0)))
         demo_url ''mp4'' ''s1'')
 \<and> \<not> list_ex is_put
      (stream_playlist_download
         (demo_env (Inl (Exn TimeoutExpired ''Command timed out after 30 seconds''))
            (Inr (demo_download demo_output 0)))
         demo_url ''mp4'' ''s1'')
 \<and> \<not> list_ex is_popen
      (stream_playlist_download
         (demo_env (Inr demo_failed_listing) (Inr (demo_download demo_output 0)))
         demo_url ''mp4'' ''s1'')
 \<and> \<not> list_ex is_put
      (stream_playlist_download
         (demo_env (Inr demo_failed_listing) (Inr (demo_download demo_output 0)))
         demo_url ''mp4'' ''s1'')"
proof -
  let ?E1 = "demo_env (Inl (Exn TimeoutExpired ''Command timed out after 30 seconds''))
            (Inr (demo_download demo_output 0))"
  let ?E2 = "demo_env (Inr demo_failed_listing) (Inr (demo_download demo_output 0))"
  have m1: "os_makedirs ?E1 (DOWNLOADS_DIR ?E1) = None" by (simp add: demo_env_fields)
  have m2: "os_makedirs ?E2 (DOWNLOADS_DIR ?E2) = None" by (simp add: demo_env_fields)
  have f1: "case subprocess_run ?E1 (enumerate_command demo_url) 30 of
           Inl e \<Rightarrow> True | Inr result \<Rightarrow> cp_returncode result \<noteq> 0"
    by (simp add: demo_env_fields)
  have f2: "case subprocess_run ?E2 (enumerate_command demo_url) 30 of
           Inl e \<Rightarrow> True | Inr result \<Rightarrow> cp_returncode result \<noteq> 0"
    by (simp add: demo_env_fields demo_failed_listing_def)
  from enumeration_failure_aborts [OF demo_url_valid m1 f1, of "''mp4''" "''s1''" Map.empty]
    enumeration_failure_aborts [OF demo_url_valid m2 f2, of "''mp4''" "''s1''" Map.empty]
  show ?thesis by blast
qed

subsection \<open>format outside enum rejected\<close>

text \<open>
  Claim C8. A request whose \<open>format\<close> is neither mp4 nor mp3 is rejected by the
  validation of the query parameters: the endpoint returns the rejection and no run of
  the generator, hence no frame.
\<close>

theorem format_outside_enum_rejected:
  assumes "format \<noteq> ''mp4''" and "format \<noteq> ''mp3''"
  shows "\<exists>err. download_endpoint E uuid4 q_playlist_url (Some format) = Inl err"
  using assms
  by (simp add: download_endpoint_def query_format_def split: sum.splits)

text \<open>The statement at a concrete run.\<close>

theorem format_outside_enum_rejected_witness:
  "\<exists>err. download_endpoint (demo_env (Inr demo_listing) (Inr (demo_download demo_output 0)))
            ''0b0f5e0c-5d2a-4c52-9a3e-3f1d2c4b5a69'' (Some demo_url) (Some ''avi'') = Inl err"
proof (rule format_outside_enum_rejected)
  show "''avi'' \<noteq> ''mp4''" by simp
  show "''avi'' \<noteq> ''mp3''" by simp
qed

subsection \<open>enumeration strict decoding\<close>

text \<open>
  Claim C9 as it is worded, for every non-empty line that is not valid JSON, does not
  hold: the test of the code is \<^verbatim>\<open>line.strip()\<close>, so a line of three spaces, which
  is not empty and is no JSON, is passed over and the enumeration returns its count.
\<close>

theorem enumeration_strict_decoding_counterexample:
  "''   '' \<in> set (cp_stdout demo_spaces_listing)
 \<and> ''   '' \<noteq> []
 \<and> undecodable demo_loads ''   ''
 \<and> snd (get_total_videos
          (demo_env (Inr demo_spaces_listing) (Inr (demo_download demo_output 0))) demo_url) = Inr 2
 \<and> events (stream_playlist_download
             (demo_env (Inr demo_spaces_listing) (Inr (demo_download demo_output 0)))
             demo_url ''mp4'' ''s1'') =
      [Total 2, Progress (JStr ''First'') 1 2, Progress (JStr ''Second'') 2 2, Complete]"
  by code_simp

text \<open>
  Claim C9, as amended. Let the enumeration process exit with status 0, and call a line
  blank when \<^verbatim>\<open>line.strip()\<close> is empty. If \<open>get_total_videos\<close> returns a count,
  the count is the number of non-blank lines whose decoded value contains \<open>id\<close> (in
  the sense of the operator \<^verbatim>\<open>in\<close>); it does return that count when every non-blank
  line decodes to a value that \<^verbatim>\<open>in\<close> accepts. If \<^verbatim>\<open>json.loads\<close> raises on
  some non-blank line, \<open>get_total_videos\<close> raises, and the run of the generator (for
  an accepted URL) yields the single frame \<open>Error\<close> "Failed to get playlist info: ..."
  and never starts the download process.
\<close>

theorem enumeration_strict_decoding:
  assumes "subprocess_run E (enumerate_command playlist_url) 30 = Inr result"
    and "cp_returncode result = 0"
  shows "(\<forall>n. snd (get_total_videos E playlist_url) = Inr n \<longrightarrow>
            n = length (filter (counted (json_loads E)) (cp_stdout result)))
       \<and> (list_all (countable_line (json_loads E)) (cp_stdout result) \<longrightarrow>
            snd (get_total_videos E playlist_url) =
              Inr (length (filter (counted (json_loads E)) (cp_stdout result))))
       \<and> ((\<exists>line\<in>set (cp_stdout result). truthy (strip line) \<and> (\<exists>e. json_loads E line = Inl e)) \<longrightarrow>
            (\<exists>e. snd (get_total_videos E playlist_url) = Inl e
               \<and> (validate_youtube_url playlist_url \<and> os_makedirs E (DOWNLOADS_DIR E) = None \<longrightarrow>
                    events (stream_playlist_download E playlist_url format session_id) =
                      [Error (''Failed to get playlist info: '' @ str e)]
                  \<and> \<not> list_ex is_popen
                        (stream_playlist_download E playlist_url format session_id))))"
proof -
  note g = get_total_videos_listing [OF assms]
  have a: "\<forall>n. snd (get_total_videos E playlist_url) = Inr n \<longrightarrow>
            n = length (filter (counted (json_loads E)) (cp_stdout result))"
    unfolding g using count_ids_Inr by blast
  have b: "list_all (countable_line (json_loads E)) (cp_stdout result) \<longrightarrow>
            snd (get_total_videos E playlist_url) =
              Inr (length (filter (counted (json_loads E)) (cp_stdout result)))"
    unfolding g using count_ids_total by blast
  have c: "(\<exists>line\<in>set (cp_stdout result). truthy (strip line) \<and> (\<exists>e. json_loads E line = Inl e)) \<longrightarrow>
            (\<exists>e. snd (get_total_videos E playlist_url) = Inl e
               \<and> (validate_youtube_url playlist_url \<and> os_makedirs E (DOWNLOADS_DIR E) = None \<longrightarrow>
                    events (stream_playlist_download E playlist_url format session_id) =
                      [Error (''Failed to get playlist info: '' @ str e)]
                  \<and> \<not> list_ex is_popen
                        (stream_playlist_download E playlist_url format session_id)))"
  proof
    assume "\<exists>line\<in>set (cp_stdout result). truthy (strip line) \<and> (\<exists>e. json_loads E line = Inl e)"
    then obtain line e0 where l: "line \<in> set (cp_stdout result)" "truthy (strip line)"
      "json_loads E line = Inl e0" by blast
    from l have "\<exists>e'. count_ids (json_loads E) (cp_stdout result) = Inl e'"
      by (rule count_ids_bad_line)
    then obtain e where
      e: "snd (get_total_videos E playlist_url) = Inl e" unfolding g by blast
    with stream_enumeration_error_events [where e = e and E = E and u = playlist_url]
    show "\<exists>e. snd (get_total_videos E playlist_url) = Inl e
               \<and> (validate_youtube_url playlist_url \<and> os_makedirs E (DOWNLOADS_DIR E) = None \<longrightarrow>
                    events (stream_playlist_download E playlist_url format session_id) =
                      [Error (''Failed to get playlist info: '' @ str e)]
                  \<and> \<not> list_ex is_popen
                        (stream_playlist_download E playlist_url format session_id))"
      by blast
  qed
  from a b c show ?thesis by blast
qed

text \<open>The statement at a concrete run.\<close>

theorem enumeration_strict_decoding_witness:
  "snd (get_total_videos (demo_env (Inr demo_listing) (Inr (demo_download demo_output 0)))
          demo_url) = Inr 2
 \<and> snd (get_total_videos (demo_env (Inr demo_bad_listing) (Inr (demo_download demo_output 0)))
          demo_url) = Inl (Exn JSONDecodeError ''Expecting value: line 1 column 1 (char 0)'')
 \<and> events (stream_playlist_download
             (demo_env (Inr demo_bad_listing) (Inr (demo_download demo_output 0)))
             demo_url ''mp4'' ''s1'') =
      [Error (''Failed to get playlist info: '' @ ''Expecting value: line 1 column 1 (char 0)'')]
 \<and> \<not> list_ex is_popen
       (stream_playlist_download
          (demo_env (Inr demo_bad_listing) (Inr (demo_download demo_output 0)))
          demo_url ''mp4'' ''s1'')"
proof -
  let ?E1 = "demo_env (Inr demo_listing) (Inr (demo_download demo_output 0))"
  let ?E2 = "demo_env (Inr demo_bad_listing) (Inr (demo_download demo_output 0))"
  have r1: "subprocess_run ?E1 (enumerate_command demo_url) 30 = Inr demo_listing"
    by (simp add: demo_env_fields)
  have r2: "subprocess_run ?E2 (enumerate_command demo_url) 30 = Inr demo_bad_listing"
    by (simp add: demo_env_fields)
  have c1: "cp_returncode demo_listing = 0" by (simp add: demo_listing_def)
  have c2: "cp_returncode demo_bad_listing = 0" by (simp add: demo_bad_listing_def)
  have l1: "json_loads ?E1 = demo_loads" by (rule demo_env_fields)
  have l2: "json_loads ?E2 = demo_loads" by (rule demo_env_fields)
  have ok: "list_all (countable_line (json_loads ?E1)) (cp_stdout demo_listing)"
    unfolding l1 by (rule demo_listing_countable)
  have bad: "\<exists>line\<in>set (cp_stdout demo_bad_listing).
      truthy (strip line) \<and> (\<exists>e. json_loads ?E2 line = Inl e)"
    unfolding l2
  proof (rule bexI [OF _ demo_bad_line_member], rule conjI)
    show "truthy (strip demo_warning_line)" by (rule demo_bad_line_truthy)
    show "\<exists>e. demo_loads demo_warning_line = Inl e"
      using demo_bad_line_loads by (rule exI)
  qed
  have m2: "validate_youtube_url demo_url \<and> os_makedirs ?E2 (DOWNLOADS_DIR ?E2) = None"
    using demo_url_valid by (simp add: demo_env_fields)
  have "snd (get_total_videos ?E1 demo_url) =
      Inr (length (filter (counted (json_loads ?E1)) (cp_stdout demo_listing)))"
    using enumeration_strict_decoding
            [OF r1 c1, of "''mp4''" "''s1''", THEN conjunct2, THEN conjunct1] ok
    by (rule mp)
  then have a: "snd (get_total_videos ?E1 demo_url) = Inr 2"
    unfolding l1 demo_listing_counted .
  have "\<exists>e. snd (get_total_videos ?E2 demo_url) = Inl e
       \<and> (validate_youtube_url demo_url \<and> os_makedirs ?E2 (DOWNLOADS_DIR ?E2) = None \<longrightarrow>
            events (stream_playlist_download ?E2 demo_url ''mp4'' ''s1'') =
              [Error (''Failed to get playlist info: '' @ str e)]
          \<and> \<not> list_ex is_popen (stream_playlist_download ?E2 demo_url ''mp4'' ''s1''))"
    using enumeration_strict_decoding
            [OF r2 c2, of "''mp4''" "''s1''", THEN conjunct2, THEN conjunct2] bad
    by (rule mp)
  then obtain e where e: "snd (get_total_videos ?E2 demo_url) = Inl e"
    and i: "validate_youtube_url demo_url \<and> os_makedirs ?E2 (DOWNLOADS_DIR ?E2) = None \<longrightarrow>
            events (stream_playlist_download ?E2 demo_url ''mp4'' ''s1'') =
              [Error (''Failed to get playlist info: '' @ str e)]
          \<and> \<not> list_ex is_popen (stream_playlist_download ?E2 demo_url ''mp4'' ''s1'')"
    by (elim exE conjE)
  from e demo_bad_total
  have ee: "e = Exn JSONDecodeError ''Expecting value: line 1 column 1 (char 0)''"
    by simp
  from i m2 have "events (stream_playlist_download ?E2 demo_url ''mp4'' ''s1'') =
              [Error (''Failed to get playlist info: '' @ str e)]
          \<and> \<not> list_ex is_popen (stream_playlist_download ?E2 demo_url ''mp4'' ''s1'')"
    by (rule mp)
  with ee have b: "events (stream_playlist_download ?E2 demo_url ''mp4'' ''s1'') =
      [Error (''Failed to get playlist info: '' @ ''Expecting value: line 1 column 1 (char 0)'')]
    \<and> \<not> list_ex is_popen (stream_playlist_download ?E2 demo_url ''mp4'' ''s1'')"
    by simp
  from a demo_bad_total b show ?thesis by simp
qed

subsection \<open>progress events numbered\<close>

text \<open>
  Claim C10. In every run, the \<open>k\<close>-th \<open>Progress\<close> frame has
  \<open>completed = k\<close>, and all \<open>Progress\<close> frames carry as \<open>total\<close> the
  count that the enumeration returned. One turn of the loop adds one to the counter when
  the line is non-blank, decodes, and the decoded value contains \<open>title\<close>, and leaves
  the counter as it is in every other case.
\<close>

theorem progress_events_numbered:
  "(\<exists>N. map progress_info
           (filter is_progress (events (stream_playlist_download E playlist_url format session_id))) =
          map (\<lambda>k. Some (k, N))
            [1..<Suc (length (filter is_progress
                       (events (stream_playlist_download E playlist_url format session_id))))]
      \<and> (filter is_progress (events (stream_playlist_download E playlist_url format session_id)) \<noteq> [] \<longrightarrow>
            snd (get_total_videos E playlist_url) = Inr N))
 \<and> fst (process_line loads total_videos completed_videos line) =
     (if truthy (strip line) \<and>
         (case loads line of Inl e \<Rightarrow> False | Inr v \<Rightarrow> py_in ''title'' v = Inr True)
      then completed_videos + 1 else completed_videos)"
  using stream_progress_numbering [of E playlist_url format session_id]
    process_line_counter [of loads total_videos completed_videos line]
  by blast

text \<open>The statement at a concrete run.\<close>

theorem progress_events_numbered_witness:
  "map progress_info
     (filter is_progress
        (events (stream_playlist_download
                   (demo_env (Inr demo_listing) (Inr (demo_download demo_output 0)))
                   demo_url ''mp4'' ''s1''))) = [Some (1, 2), Some (2, 2)]
 \<and> fst (process_line demo_loads 2 0 demo_first_line) = 1"
proof -
  let ?E = "demo_env (Inr demo_listing) (Inr (demo_download demo_output 0))"
  let ?P = "filter is_progress (events (stream_playlist_download ?E demo_url ''mp4'' ''s1''))"
  have len: "length ?P = 2" by code_simp
  have tot: "snd (get_total_videos ?E demo_url) = Inr 2" by (rule demo_total)
  have dec: "truthy (strip demo_first_line) \<and>
         (case demo_loads demo_first_line of
            Inl e \<Rightarrow> False | Inr v \<Rightarrow> py_in ''title'' v = Inr True)"
    by (simp add: demo_loads_def demo_first_line_def truthy_def strip_def is_space_def)
  from progress_events_numbered [of ?E demo_url "''mp4''" "''s1''" demo_loads 2 0
      demo_first_line]
  obtain N where a: "map progress_info ?P = map (\<lambda>k. Some (k, N)) [1..<Suc (length ?P)]"
    and b: "?P \<noteq> [] \<longrightarrow> snd (get_total_videos ?E demo_url) = Inr N"
    and c: "fst (process_line demo_loads 2 0 demo_first_line) =
     (if truthy (strip demo_first_line) \<and>
         (case demo_loads demo_first_line of
            Inl e \<Rightarrow> False | Inr v \<Rightarrow> py_in ''title'' v = Inr True)
      then 0 + 1 else 0)"
    by blast
  from len have "?P \<noteq> []" by auto
  with b tot have "N = 2" by simp
  with a len have "map progress_info ?P = [Some (1, 2), Some (2, 2)]"
    by (simp add: upt_rec)
  moreover from c dec have "fst (process_line demo_loads 2 0 demo_first_line) = 1"
    by simp
  ultimately show ?thesis by blast
qed

end
